theory Spec2Isabelle
  imports Main
begin

section \<open>The USRP source block interface of gr-uhd\<close>

text \<open>
  The unit is the header \<^verbatim>\<open>gr-uhd/lib/uhd_single_usrp_source.h\<close>: the factory
  function \<^verbatim>\<open>uhd_make_single_usrp_source\<close> and the abstract class
  \<^verbatim>\<open>uhd_single_usrp_source\<close>. Apart from the constructor, every member function
  of the class but one is pure virtual (\<^verbatim>\<open>= 0\<close>): the header fixes its signature and
  its default arguments, and a concrete subclass supplies the body. The one member with
  a body is the bare-frequency overload of \<^verbatim>\<open>set_center_freq\<close>.
\<close>

subsection \<open>Types\<close>

text \<open>
  \<^verbatim>\<open>size_t\<close> carries channel indices and the channel count. The header only passes
  such values on, and its two literals are 0 and 1, so the width of the machine word
  plays no part and the type is read as the natural numbers.
\<close>

type_synonym size_t = nat

text \<open>
  A member function runs on the object it is called on and may throw. Here it is a
  function from the state of the object to the outcome (\<open>Inl\<close> an exception,
  \<open>Inr\<close> the value returned) and the state afterwards.
\<close>

type_synonym ('a, 's, 'e) member_fn = "'s \<Rightarrow> ('e + 'a) \<times> 's"

subsection \<open>The bare-frequency overload of \<^verbatim>\<open>set_center_freq\<close>\<close>

text \<open>
  \<^verbatim>\<open>
  virtual uhd::tune_result_t set_center_freq(
      const uhd::tune_request_t tune_request, size_t chan
  ) = 0;

  uhd::tune_result_t set_center_freq(double freq, size_t chan){
      return set_center_freq(uhd::tune_request_t(freq), chan);
  }
  \<close>
  The call in the body has a \<^verbatim>\<open>uhd::tune_request_t\<close> as its first argument, so it
  resolves to the pure virtual overload and is dispatched to the overrider of the
  object's class. Two things the body uses are declared outside this header and are
  parameters of the model:
  \<^item> \<open>tune_request_t\<close>, the one-argument constructor of \<^verbatim>\<open>uhd::tune_request_t\<close>
    (declared by the UHD library), a function from \<^verbatim>\<open>double\<close> (the type \<open>'f\<close>)
    to tune requests (the type \<open>'req\<close>);
  \<^item> \<open>set_center_freq\<close>, the overrider of the pure virtual overload in the object's
    class, returning a tune result (the type \<open>'res\<close>).
\<close>

definition set_center_freq_freq ::
  "('f \<Rightarrow> 'req) \<Rightarrow> ('req \<Rightarrow> size_t \<Rightarrow> ('res, 's, 'e) member_fn)
     \<Rightarrow> 'f \<Rightarrow> size_t \<Rightarrow> ('res, 's, 'e) member_fn" where
  "set_center_freq_freq tune_request_t set_center_freq freq chan =
     set_center_freq (tune_request_t freq) chan"

subsection \<open>The declarations and their default arguments\<close>

text \<open>
  The header declares the factory function, the constructor and eighteen other member
  functions. A parameter is declared with its type and its name, and some parameters
  with a default argument; every default argument in this header is a literal of type
  \<^verbatim>\<open>size_t\<close>.
\<close>

datatype cpp_type =
  Std_string | Io_type_tid_t | Size_t | Gr_io_signature_sptr | Double | Float
  | Tune_request_t | Clock_config_t | Time_spec_t

datatype param = Param (ptype: cpp_type) (pname: string) (pdefault: "size_t option")

text \<open>
  The declarations in the order of the header. The two overloads of
  \<^verbatim>\<open>set_center_freq\<close> are told apart by the type of their first parameter.
\<close>

datatype decl =
  Uhd_make_single_usrp_source | Uhd_single_usrp_source
  | Set_subdev_spec | Set_samp_rate | Get_samp_rate
  | Set_center_freq_request | Set_center_freq_freq
  | Get_freq_range | Set_gain | Get_gain | Get_gain_range
  | Set_antenna | Get_antenna | Get_antennas | Set_bandwidth
  | Set_clock_config | Get_time_now | Set_time_now | Set_time_next_pps | Get_device

definition declarations :: "decl list" where
  "declarations =
     [Uhd_make_single_usrp_source, Uhd_single_usrp_source,
      Set_subdev_spec, Set_samp_rate, Get_samp_rate,
      Set_center_freq_request, Set_center_freq_freq,
      Get_freq_range, Set_gain, Get_gain, Get_gain_range,
      Set_antenna, Get_antenna, Get_antennas, Set_bandwidth,
      Set_clock_config, Get_time_now, Set_time_now, Set_time_next_pps, Get_device]"

fun params :: "decl \<Rightarrow> param list" where
  "params Uhd_make_single_usrp_source =
     [Param Std_string ''device_addr'' None,
      Param Io_type_tid_t ''io_type'' None,
      Param Size_t ''num_channels'' (Some 1)]"
| "params Uhd_single_usrp_source = [Param Gr_io_signature_sptr ''sig'' None]"
| "params Set_subdev_spec = [Param Std_string ''spec'' None]"
| "params Set_samp_rate = [Param Double ''rate'' None]"
| "params Get_samp_rate = []"
| "params Set_center_freq_request =
     [Param Tune_request_t ''tune_request'' None, Param Size_t ''chan'' None]"
| "params Set_center_freq_freq =
     [Param Double ''freq'' None, Param Size_t ''chan'' None]"
| "params Get_freq_range = [Param Size_t ''chan'' (Some 0)]"
| "params Set_gain = [Param Float ''gain'' None, Param Size_t ''chan'' (Some 0)]"
| "params Get_gain = [Param Size_t ''chan'' (Some 0)]"
| "params Get_gain_range = [Param Size_t ''chan'' (Some 0)]"
| "params Set_antenna = [Param Std_string ''ant'' None, Param Size_t ''chan'' (Some 0)]"
| "params Get_antenna = [Param Size_t ''chan'' (Some 0)]"
| "params Get_antennas = [Param Size_t ''chan'' (Some 0)]"
| "params Set_bandwidth = [Param Double ''bandwidth'' None, Param Size_t ''chan'' (Some 0)]"
| "params Set_clock_config = [Param Clock_config_t ''clock_config'' None]"
| "params Get_time_now = []"
| "params Set_time_now = [Param Time_spec_t ''time_spec'' None]"
| "params Set_time_next_pps = [Param Time_spec_t ''time_spec'' None]"
| "params Get_device = []"

text \<open>The channel parameter of a declaration, if it has one.\<close>

definition chan_param :: "decl \<Rightarrow> param option" where
  "chan_param d = find (\<lambda>p. pname p = ''chan'') (params d)"

text \<open>
  An argument of a call is a \<^verbatim>\<open>size_t\<close> value or a value of another type (a
  \<^verbatim>\<open>double\<close>, a string, a tune request, ...), which binding passes on as it is.
\<close>

datatype 'a arg = Size_t_arg size_t | Other_arg 'a

text \<open>
  Binding the arguments of a call to the parameters of the declaration, as C++ does
  where the call is compiled: the arguments the caller wrote bind the leading
  parameters in order, and each parameter left over takes its default argument. The
  call is ill-formed (\<open>None\<close>) when a parameter left over has no default argument or
  when the caller wrote more arguments than there are parameters. The result is the
  list of arguments the function receives.
\<close>

fun bind_args :: "param list \<Rightarrow> 'a arg list \<Rightarrow> 'a arg list option" where
  "bind_args [] [] = Some []"
| "bind_args [] (a # as) = None"
| "bind_args (p # ps) (a # as) = map_option ((#) a) (bind_args ps as)"
| "bind_args (p # ps) [] =
     (case pdefault p of
        None \<Rightarrow> None
      | Some d \<Rightarrow> map_option ((#) (Size_t_arg d)) (bind_args ps []))"

definition call :: "decl \<Rightarrow> 'a arg list \<Rightarrow> 'a arg list option" where
  "call d as = bind_args (params d) as"

text \<open>
  The C++ name of a declaration, and the declarations that a call matches exactly:
  those of the name called whose parameter types are the types of the arguments, in
  order. (Types are compared without their \<^verbatim>\<open>const\<close> and reference qualifiers.)
\<close>

fun dname :: "decl \<Rightarrow> string" where
  "dname Uhd_make_single_usrp_source = ''uhd_make_single_usrp_source''"
| "dname Uhd_single_usrp_source = ''uhd_single_usrp_source''"
| "dname Set_subdev_spec = ''set_subdev_spec''"
| "dname Set_samp_rate = ''set_samp_rate''"
| "dname Get_samp_rate = ''get_samp_rate''"
| "dname Set_center_freq_request = ''set_center_freq''"
| "dname Set_center_freq_freq = ''set_center_freq''"
| "dname Get_freq_range = ''get_freq_range''"
| "dname Set_gain = ''set_gain''"
| "dname Get_gain = ''get_gain''"
| "dname Get_gain_range = ''get_gain_range''"
| "dname Set_antenna = ''set_antenna''"
| "dname Get_antenna = ''get_antenna''"
| "dname Get_antennas = ''get_antennas''"
| "dname Set_bandwidth = ''set_bandwidth''"
| "dname Set_clock_config = ''set_clock_config''"
| "dname Get_time_now = ''get_time_now''"
| "dname Set_time_now = ''set_time_now''"
| "dname Set_time_next_pps = ''set_time_next_pps''"
| "dname Get_device = ''get_device''"

definition exact_matches :: "string \<Rightarrow> cpp_type list \<Rightarrow> decl list" where
  "exact_matches name tys =
     filter (\<lambda>d. dname d = name \<and> map ptype (params d) = tys) declarations"

section \<open>Properties\<close>

subsection \<open>The callee of the wrapper's body\<close>

text \<open>
  The body of the bare-frequency overload calls \<^verbatim>\<open>set_center_freq\<close> with a
  \<^verbatim>\<open>uhd::tune_request_t\<close> and a \<^verbatim>\<open>size_t\<close>. One declaration matches these
  argument types exactly, the pure virtual overload: the body does not call itself.
\<close>

lemma body_call_resolves:
  "exact_matches ''set_center_freq'' [Tune_request_t, Size_t] = [Set_center_freq_request]"
  by (simp add: exact_matches_def declarations_def)

subsection \<open>Binding of arguments\<close>

text \<open>A call that writes every argument is well-formed, and the arguments are received as written.\<close>

lemma bind_args_all_written:
  "length as = length ps \<Longrightarrow> bind_args ps as = Some as"
  by (induction ps as rule: bind_args.induct) auto

text \<open>
  A well-formed call supplies one argument to each parameter, and the arguments the
  caller wrote come first, unchanged.
\<close>

lemma bind_args_Some:
  "bind_args ps as = Some bs \<Longrightarrow> length bs = length ps \<and> take (length as) bs = as"
  by (induction ps as arbitrary: bs rule: bind_args.induct) (auto split: option.splits)

subsection \<open>Main results\<close>

text \<open>
  C1. For every frequency and every channel index, the bare-frequency overload called
  on an object in state \<open>s\<close> has the outcome (the tune result returned, or the
  exception thrown) and leaves the object in the state that the request-based
  overload has and leaves when it is called, in the same state \<open>s\<close>, with the request
  that the one-argument constructor builds from the frequency. This holds for every
  overrider of the request-based overload, so the wrapper adds no behaviour of its own.
\<close>

theorem set_center_freq_freq_is_request_overload:
  "set_center_freq_freq tune_request_t set_center_freq freq chan s =
     set_center_freq (tune_request_t freq) chan s"
  by (simp add: set_center_freq_freq_def)

text \<open>
  C10. The declarations with a channel parameter are the two overloads of
  \<^verbatim>\<open>set_center_freq\<close> and the eight operations \<^verbatim>\<open>get_freq_range\<close>,
  \<^verbatim>\<open>set_gain\<close>, \<^verbatim>\<open>get_gain\<close>, \<^verbatim>\<open>get_gain_range\<close>, \<^verbatim>\<open>set_antenna\<close>,
  \<^verbatim>\<open>get_antenna\<close>, \<^verbatim>\<open>get_antennas\<close> and \<^verbatim>\<open>set_bandwidth\<close>. A call of one
  of the eight that leaves the channel out is well-formed and the function receives
  channel 0; a channel the caller writes is received as written. A call of either
  overload of \<^verbatim>\<open>set_center_freq\<close> that leaves the channel out is ill-formed: the
  channel has to be written. A call of the factory function that leaves the channel
  count out is well-formed and the function receives the count 1.
\<close>

theorem chan_defaults_to_0_except_set_center_freq:
  "filter (\<lambda>d. chan_param d \<noteq> None) declarations =
     [Set_center_freq_request, Set_center_freq_freq,
      Get_freq_range, Set_gain, Get_gain, Get_gain_range,
      Set_antenna, Get_antenna, Get_antennas, Set_bandwidth]
   \<and> call Get_freq_range [] = Some [Size_t_arg 0]
   \<and> call Set_gain [gain] = Some [gain, Size_t_arg 0]
   \<and> call Get_gain [] = Some [Size_t_arg 0]
   \<and> call Get_gain_range [] = Some [Size_t_arg 0]
   \<and> call Set_antenna [ant] = Some [ant, Size_t_arg 0]
   \<and> call Get_antenna [] = Some [Size_t_arg 0]
   \<and> call Get_antennas [] = Some [Size_t_arg 0]
   \<and> call Set_bandwidth [bandwidth] = Some [bandwidth, Size_t_arg 0]
   \<and> call Get_freq_range [chan] = Some [chan]
   \<and> call Set_gain [gain, chan] = Some [gain, chan]
   \<and> call Get_gain [chan] = Some [chan]
   \<and> call Get_gain_range [chan] = Some [chan]
   \<and> call Set_antenna [ant, chan] = Some [ant, chan]
   \<and> call Get_antenna [chan] = Some [chan]
   \<and> call Get_antennas [chan] = Some [chan]
   \<and> call Set_bandwidth [bandwidth, chan] = Some [bandwidth, chan]
   \<and> call Set_center_freq_request [tune_request] = None
   \<and> call Set_center_freq_freq [freq] = None
   \<and> call Set_center_freq_request [tune_request, chan] = Some [tune_request, chan]
   \<and> call Set_center_freq_freq [freq, chan] = Some [freq, chan]
   \<and> call Uhd_make_single_usrp_source [device_addr, io_type] =
         Some [device_addr, io_type, Size_t_arg 1]
   \<and> call Uhd_make_single_usrp_source [device_addr, io_type, num_channels] =
         Some [device_addr, io_type, num_channels]"
  by (simp add: declarations_def chan_param_def call_def)

end
